theory Spec2Isabelle
  imports Main "HOL-Library.Sublist"
begin

section \<open>JavaScript values and strings\<close>

text \<open>
  The request bodies of \<^verbatim>\<open>server.js\<close> are parsed JSON (\<^verbatim>\<open>express.json()\<close>), so a
  field of a body is any JSON value, or \<^verbatim>\<open>undefined\<close> when the field is absent.

  \<^item> Text is a \<open>string\<close>: a list of code units below 256. Text with a code unit beyond
    that range is outside the model, and with it what JavaScript does there and only
    there: \<^verbatim>\<open>toUpperCase\<close> maps U+0131 and U+017F to the ASCII letters I and S, and
    \<^verbatim>\<open>trim\<close> removes U+FEFF and the Unicode spaces from U+1680 on.
  \<^item> A number is carried as the decimal text JavaScript prints for it (\<^verbatim>\<open>String(n)\<close>):
    \<open>JNum ''1''\<close>, \<open>JNum ''9.5''\<close>. The handlers modelled here never compute with a
    number; they only test it for truthiness (zero, printed \<^verbatim>\<open>0\<close>, is the falsy one: JSON
    has no NaN) and paste it into text.
  \<^item> An object is the list of its own properties in the order in which
    \<^verbatim>\<open>Object.keys\<close> enumerates them.
\<close>

datatype jsval =
    JUndefined
  | JNull
  | JBool bool
  | JNum string
  | JStr string
  | JArr "jsval list"
  | JObj "(string \<times> jsval) list"

text \<open>\<^verbatim>\<open>!v\<close> is \<open>\<not> truthy v\<close>.\<close>

fun truthy :: "jsval \<Rightarrow> bool" where
  "truthy JUndefined = False"
| "truthy JNull = False"
| "truthy (JBool b) = b"
| "truthy (JNum n) = (n \<noteq> ''0'')"
| "truthy (JStr s) = (s \<noteq> [])"
| "truthy (JArr xs) = True"
| "truthy (JObj kvs) = True"

definition digit :: "nat \<Rightarrow> char" where
  "digit d = char_of (48 + d)"

fun show_nat :: "nat \<Rightarrow> string" where
  "show_nat n = (if n < 10 then [digit n] else show_nat (n div 10) @ [digit (n mod 10)])"

text \<open>\<^verbatim>\<open>xs.join(sep)\<close> on a list of strings.\<close>

fun join :: "string \<Rightarrow> string list \<Rightarrow> string" where
  "join sep [] = []"
| "join sep [x] = x"
| "join sep (x # y # ys) = x @ sep @ join sep (y # ys)"

text \<open>
  The conversion to text of a template literal \<^verbatim>\<open>`${v}`\<close>; \<open>None\<close> is the TypeError
  that JavaScript throws when the value cannot be converted. An object prints as
  \<^verbatim>\<open>[object Object]\<close> through the \<^verbatim>\<open>toString\<close> it inherits; an object with an own key
  \<^verbatim>\<open>toString\<close> has a JSON value there, which cannot be called, and the \<^verbatim>\<open>valueOf\<close> that
  is tried next gives no primitive either: the conversion throws. An array prints its
  elements separated by commas, \<^verbatim>\<open>null\<close> and \<^verbatim>\<open>undefined\<close> elements as nothing, and
  throws when an element does.
\<close>

fun js_toString :: "jsval \<Rightarrow> string option" where
  "js_toString JUndefined = Some ''undefined''"
| "js_toString JNull = Some ''null''"
| "js_toString (JBool b) = Some (if b then ''true'' else ''false'')"
| "js_toString (JNum n) = Some n"
| "js_toString (JStr s) = Some s"
| "js_toString (JArr xs) =
     map_option (join '','')
       (those (map (\<lambda>x. if x = JUndefined \<or> x = JNull then Some [] else js_toString x) xs))"
| "js_toString (JObj kvs) =
     (if ''toString'' \<in> set (map fst kvs) then None else Some ''[object Object]'')"

text \<open>The message of that TypeError.\<close>

definition type_error :: string where
  "type_error = ''Cannot convert object to primitive value''"

text \<open>
  \<^verbatim>\<open>Object.keys\<close>, \<^verbatim>\<open>Object.values\<close> and \<^verbatim>\<open>Object.entries\<close> of a value. A string and an
  array have their indices as keys; a number and a boolean have none. On \<^verbatim>\<open>null\<close> and
  \<^verbatim>\<open>undefined\<close> JavaScript throws; every call below is guarded by \<^verbatim>\<open>!data\<close>, so these
  two cases are never reached.
\<close>

fun Object_keys :: "jsval \<Rightarrow> string list" where
  "Object_keys (JObj kvs) = map fst kvs"
| "Object_keys (JArr xs) = map show_nat [0..<length xs]"
| "Object_keys (JStr s) = map show_nat [0..<length s]"
| "Object_keys v = []"

fun Object_values :: "jsval \<Rightarrow> jsval list" where
  "Object_values (JObj kvs) = map snd kvs"
| "Object_values (JArr xs) = xs"
| "Object_values (JStr s) = map (\<lambda>c. JStr [c]) s"
| "Object_values v = []"

definition Object_entries :: "jsval \<Rightarrow> (string \<times> jsval) list" where
  "Object_entries v = zip (Object_keys v) (Object_values v)"

text \<open>\<^verbatim>\<open>Object.entries(v).flat()\<close>: each pair \<^verbatim>\<open>[k, x]\<close> is spliced in, one level deep.\<close>

definition entries_flat :: "jsval \<Rightarrow> jsval list" where
  "entries_flat v = concat (map (\<lambda>(k, x). [JStr k, x]) (Object_entries v))"

text \<open>
  \<^verbatim>\<open>toUpperCase\<close> and \<^verbatim>\<open>toLowerCase\<close> on the ASCII letters. The code units from 128 to
  255 are left as they are. The results are only compared with the five operation
  names and searched for the four destructive keywords, all ASCII words, and JavaScript
  maps no code unit of that range to an ASCII letter, but for the sharp s, whose upper
  case \<^verbatim>\<open>SS\<close> occurs in none of the operation names: the comparisons come out the same.
\<close>

definition upper_char :: "char \<Rightarrow> char" where
  "upper_char c = (let n = (of_char c :: nat) in if 97 \<le> n \<and> n \<le> 122 then char_of (n - 32) else c)"

definition lower_char :: "char \<Rightarrow> char" where
  "lower_char c = (let n = (of_char c :: nat) in if 65 \<le> n \<and> n \<le> 90 then char_of (n + 32) else c)"

definition toUpperCase :: "string \<Rightarrow> string" where
  "toUpperCase s = map upper_char s"

definition toLowerCase :: "string \<Rightarrow> string" where
  "toLowerCase s = map lower_char s"

section \<open>The store and the responses\<close>

text \<open>
  What \<^verbatim>\<open>db.query\<close> hands to its callback: an error with its message, the rows of a
  row-returning statement, or the header of a mutation with its \<^verbatim>\<open>affectedRows\<close>.
  The store is a parameter of every handler: a function of the statement and its
  parameter list.
\<close>

datatype store_result = StoreErr string | Rows "jsval list" | Header nat

type_synonym store = "jsval \<Rightarrow> jsval list \<Rightarrow> store_result"

text \<open>The calls a handler makes on its collaborators, in order.\<close>

datatype event =
    Lookup jsval
  | ModelCall string
  | StoreCall jsval "jsval list"

text \<open>\<^verbatim>\<open>res.status(st).json(body)\<close>.\<close>

datatype response = Response nat jsval

definition error_body :: "string \<Rightarrow> jsval" where
  "error_body msg = JObj [(''error'', JStr msg)]"

text \<open>\<^verbatim>\<open>results.affectedRows || 0\<close>, \<^verbatim>\<open>Array.isArray(results) ? results : []\<close>.\<close>

fun affectedRows :: "store_result \<Rightarrow> nat" where
  "affectedRows (Header n) = n"
| "affectedRows r = 0"

fun result_rows :: "store_result \<Rightarrow> jsval list" where
  "result_rows (Rows rs) = rs"
| "result_rows r = []"

section \<open>The CRUD surface\<close>

record crud_body =
  operation :: jsval
  tableName :: jsval
  data :: jsval
  whereClause :: jsval

text \<open>
  What the \<^verbatim>\<open>try\<close> block of \<^verbatim>\<open>app.post("/crud")\<close> reaches before \<^verbatim>\<open>db.query\<close>: an early
  reply with a status and an error message, or the statement text with its parameter
  list. A truthy \<^verbatim>\<open>operation\<close> that is not a string has no \<^verbatim>\<open>toUpperCase\<close>; the
  TypeError is caught and answered with status 500, and so is the one of a \<^verbatim>\<open>where\<close>
  that cannot be converted to text.
\<close>

datatype built = Reject nat string | Statement string "jsval list"

definition crud_switch :: "string \<Rightarrow> crud_body \<Rightarrow> built" where
  "crud_switch op b =
    (let OP = toUpperCase op in
     if OP = ''INSERT'' then
       (if \<not> truthy (data b) \<or> length (Object_keys (data b)) = 0
        then Reject 400 ''Data required for INSERT''
        else
          let columns = Object_keys (data b);
              vals = Object_values (data b);
              placeholders = join '','' (map (\<lambda>c. ''?'') columns)
          in Statement
               (''INSERT INTO ?? ('' @ join '','' (map (\<lambda>c. ''??'') columns)
                  @ '') VALUES ('' @ placeholders @ '')'')
               (tableName b # map JStr columns @ vals))
     else if OP = ''UPDATE'' then
       (if \<not> truthy (data b) \<or> length (Object_keys (data b)) = 0
        then Reject 400 ''Data required for UPDATE''
        else if \<not> truthy (whereClause b)
        then Reject 400 ''WHERE clause required for UPDATE''
        else
          let setClauses = map (\<lambda>col. ''?? = ?'') (Object_keys (data b))
          in (case js_toString (whereClause b) of
                None \<Rightarrow> Reject 500 type_error
              | Some w \<Rightarrow>
                  Statement
                    (''UPDATE ?? SET '' @ join '', '' setClauses @ '' WHERE '' @ w)
                    (tableName b # entries_flat (data b))))
     else if OP = ''DELETE'' then
       (if \<not> truthy (whereClause b)
        then Reject 400 ''WHERE clause required for DELETE''
        else (case js_toString (whereClause b) of
                None \<Rightarrow> Reject 500 type_error
              | Some w \<Rightarrow> Statement (''DELETE FROM ?? WHERE '' @ w) [tableName b]))
     else if OP = ''TRUNCATE'' then Statement ''TRUNCATE TABLE ??'' [tableName b]
     else if OP = ''DROP'' then Statement ''DROP TABLE IF EXISTS ??'' [tableName b]
     else Reject 400 (''Unsupported operation: '' @ op))"

definition crud_build :: "crud_body \<Rightarrow> built" where
  "crud_build b =
    (if \<not> truthy (operation b) \<or> \<not> truthy (tableName b)
     then Reject 400 ''Operation and table name required''
     else case operation b of
            JStr op \<Rightarrow> crud_switch op b
          | v \<Rightarrow> Reject 500 ''operation.toUpperCase is not a function'')"

text \<open>
  \<^verbatim>\<open>`${operation}`\<close> in the callback of \<^verbatim>\<open>db.query\<close>: a statement is only built for an
  operation that is a string.
\<close>

definition operation_text :: "crud_body \<Rightarrow> string" where
  "operation_text b = (case operation b of JStr op \<Rightarrow> op | v \<Rightarrow> [])"

text \<open>
  The whole handler: the reply and the calls made. A store error is answered with
  status 400 and the store's message; \<^verbatim>\<open>res.json\<close> answers with status 200.
\<close>

definition crud :: "store \<Rightarrow> crud_body \<Rightarrow> response \<times> event list" where
  "crud db b =
    (case crud_build b of
       Reject st msg \<Rightarrow> (Response st (error_body msg), [])
     | Statement sql params \<Rightarrow>
         (case db (JStr sql) params of
            StoreErr msg \<Rightarrow> Response 400 (error_body msg)
          | result \<Rightarrow>
              Response 200 (JObj
                [(''success'', JBool True),
                 (''operation'', operation b),
                 (''affectedRows'', JNum (show_nat (affectedRows result))),
                 (''message'', JStr (operation_text b @ '' completed successfully''))]),
          [StoreCall (JStr sql) params]))"

text \<open>The test of \<^verbatim>\<open>/^[a-zA-Z0-9_]+$/\<close>, which \<^verbatim>\<open>app.post("/upload")\<close> applies to its table name.\<close>

definition word_char :: "char \<Rightarrow> bool" where
  "word_char c =
    (let n = (of_char c :: nat)
     in (97 \<le> n \<and> n \<le> 122) \<or> (65 \<le> n \<and> n \<le> 90) \<or> (48 \<le> n \<and> n \<le> 57) \<or> n = 95)"

definition valid_table_name :: "string \<Rightarrow> bool" where
  "valid_table_name s = (s \<noteq> [] \<and> list_all word_char s)"

definition const_store :: "store_result \<Rightarrow> store" where
  "const_store r sqltext params = r"

text \<open>The text of a built statement, when there is one.\<close>

fun statement_text :: "built \<Rightarrow> string option" where
  "statement_text (Statement sqltext params) = Some sqltext"
| "statement_text (Reject st msg) = None"

section \<open>The execute-raw-SQL surface\<close>

record execute_body =
  sql :: jsval
  requireConfirmation :: jsval

text \<open>
  \<^verbatim>\<open>app.post("/execute")\<close> destructures \<^verbatim>\<open>requireConfirmation\<close> and never reads it again.
  The statement goes to \<^verbatim>\<open>db.query\<close> without parameters.
\<close>

definition execute :: "store \<Rightarrow> execute_body \<Rightarrow> response \<times> event list" where
  "execute db b =
    (if \<not> truthy (sql b) then (Response 400 (error_body ''SQL query required''), [])
     else
       (case db (sql b) [] of
          StoreErr msg \<Rightarrow> Response 400 (error_body msg)
        | results \<Rightarrow>
            Response 200 (JObj
              [(''results'', JArr (result_rows results)),
               (''rowCount'', JNum (show_nat (length (result_rows results)))),
               (''affectedRows'', JNum (show_nat (affectedRows results)))]),
        [StoreCall (sql b) []]))"

section \<open>Parsing the model's reply\<close>

text \<open>
  \<^verbatim>\<open>s.split(sep)\<close>: the pieces of \<open>s\<close> between the occurrences of \<open>sep\<close>, found from
  left to right without overlap. With an empty separator JavaScript splits into single
  code units.
\<close>

function split_loop :: "string \<Rightarrow> string \<Rightarrow> string \<Rightarrow> string list" where
  "split_loop sep acc [] = [acc]"
| "split_loop sep acc (c # cs) =
     (if sep \<noteq> [] \<and> prefix sep (c # cs)
      then acc # split_loop sep [] (drop (length sep) (c # cs))
      else split_loop sep (acc @ [c]) cs)"
  by pat_completeness auto
termination
  by (relation "measure (\<lambda>(sep, acc, s). length s)") auto

definition split :: "string \<Rightarrow> string \<Rightarrow> string list" where
  "split s sep = (if sep = [] then map (\<lambda>c. [c]) s else split_loop sep [] s)"

text \<open>\<^verbatim>\<open>xs[i]\<close>: \<^verbatim>\<open>undefined\<close>, here \<open>None\<close>, out of range.\<close>

definition at :: "'a list \<Rightarrow> nat \<Rightarrow> 'a option" where
  "at xs i = (if i < length xs then Some (xs ! i) else None)"

text \<open>The white space that \<^verbatim>\<open>trim\<close> removes, among the code units below 256.\<close>

definition white_space :: "char \<Rightarrow> bool" where
  "white_space c = ((of_char c :: nat) \<in> {9, 10, 11, 12, 13, 32, 160})"

definition trim :: "string \<Rightarrow> string" where
  "trim s = rev (dropWhile white_space (rev (dropWhile white_space s)))"

definition newline :: char where
  "newline = CHR 0x0A"

text \<open>
  \<^verbatim>\<open>s.replace(/lit\n?/g, "")\<close> for a non-empty literal \<open>lit\<close>: every occurrence of
  \<open>lit\<close>, found from left to right, is removed together with one line feed after it
  when there is one.
\<close>

function remove_fence :: "string \<Rightarrow> string \<Rightarrow> string" where
  "remove_fence lit [] = []"
| "remove_fence lit (c # cs) =
     (if lit \<noteq> [] \<and> prefix lit (c # cs)
      then (case drop (length lit) (c # cs) of
              [] \<Rightarrow> []
            | n # rest \<Rightarrow> if n = newline then remove_fence lit rest else remove_fence lit (n # rest))
      else c # remove_fence lit cs)"
  by pat_completeness auto
termination
proof (relation "measure (\<lambda>(lit, s). length s)", goal_cases)
  case 1
  show ?case by simp
next
  case (2 lit c cs n rest)
  then have "length (n # rest) = length (c # cs) - length lit" by (metis length_drop)
  then show ?case by simp
next
  case (3 lit c cs n rest)
  then have "length (n # rest) = length (c # cs) - length lit" by (metis length_drop)
  moreover from 3 have "0 < length lit" by simp
  ultimately show ?case by simp
next
  case (4 lit c cs)
  show ?case by simp
qed

text \<open>\<^verbatim>\<open>x || d\<close> where \<open>x\<close> is a string or \<^verbatim>\<open>undefined\<close>: the empty string is falsy too.\<close>

definition or_default :: "string option \<Rightarrow> string \<Rightarrow> string" where
  "or_default x d = (case x of None \<Rightarrow> d | Some s \<Rightarrow> if s = [] then d else s)"

record parsed =
  p_sql :: string
  p_explanation :: string
  p_warning :: string

text \<open>
  The three extractions of \<^verbatim>\<open>app.post("/ask")\<close>. Each \<^verbatim>\<open>?.\<close> is a bind on \<open>option\<close>:
  after a missing \<^verbatim>\<open>[1]\<close> the rest of the chain is skipped.
\<close>

definition fence :: string where
  "fence = [CHR 0x60, CHR 0x60, CHR 0x60]"

definition extract_sql :: "string \<Rightarrow> string" where
  "extract_sql content =
    (let sql0 = or_default
           (Option.bind (at (split content ''SQL_QUERY:'') 1) (\<lambda>a.
            Option.bind (at (split a ''BUSINESS_EXPLANATION:'') 0) (\<lambda>b.
            Option.bind (at (split b ''WARNING:'') 0) (\<lambda>c.
            Some (trim c))))) []
     in trim (remove_fence fence (remove_fence (fence @ ''sql'') sql0)))"

definition extract_explanation :: "string \<Rightarrow> string" where
  "extract_explanation content =
    or_default
      (Option.bind (at (split content ''BUSINESS_EXPLANATION:'') 1) (\<lambda>a.
       Option.bind (at (split a ''WARNING:'') 0) (\<lambda>b.
       Some (trim b)))) ''No explanation provided''"

definition extract_warning :: "string \<Rightarrow> string" where
  "extract_warning content =
    or_default
      (Option.bind (at (split content ''WARNING:'') 1) (\<lambda>a. Some (trim a))) []"

text \<open>
  \<^verbatim>\<open>content\<close> is the text of the model's message, or \<^verbatim>\<open>null\<close>; on \<^verbatim>\<open>null\<close> the first
  \<^verbatim>\<open>content.split\<close> throws a TypeError, the only way the parsing can fail.
\<close>

definition apostrophe :: char where
  "apostrophe = CHR 0x27"

definition parse_reply :: "string option \<Rightarrow> string + parsed" where
  "parse_reply content =
    (case content of
       None \<Rightarrow> Inl (''Cannot read properties of null (reading '' @ [apostrophe] @ ''split''
                      @ [apostrophe] @ '')'')
     | Some c \<Rightarrow> Inr \<lparr>p_sql = extract_sql c,
                      p_explanation = extract_explanation c,
                      p_warning = extract_warning c\<rparr>)"

section \<open>The destructive-operation check\<close>

text \<open>\<^verbatim>\<open>s.includes(k)\<close>.\<close>

definition js_includes :: "string \<Rightarrow> string \<Rightarrow> bool" where
  "js_includes s k = sublist k s"

definition isDestructive :: "string \<Rightarrow> bool" where
  "isDestructive sqltext =
    (let sqlLower = toLowerCase sqltext
     in js_includes sqlLower ''delete'' \<or> js_includes sqlLower ''drop''
        \<or> js_includes sqlLower ''truncate'' \<or> js_includes sqlLower ''update'')"

text \<open>
  The fixed message. Its first two code points, the warning sign U+26A0 U+FE0F, are
  not code units below 256; they are written as their six UTF-8 bytes.
\<close>

definition destructive_warning :: string where
  "destructive_warning =
    [CHR 0xE2, CHR 0x9A, CHR 0xA0, CHR 0xEF, CHR 0xB8, CHR 0x8F]
    @ '' This query will modify or delete data. Review carefully before executing.''"

text \<open>\<^verbatim>\<open>if (isDestructive && !warning) warning = ...\<close>; the warning is a string here.\<close>

definition classify :: "string \<Rightarrow> string \<Rightarrow> string" where
  "classify sqltext warning =
    (if isDestructive sqltext \<and> warning = [] then destructive_warning else warning)"

section \<open>The ask surface\<close>

record ask_body =
  tables :: jsval
  table :: jsval
  question :: jsval

text \<open>
  \<^verbatim>\<open>tables ? (Array.isArray(tables) ? tables : [tables]) : (req.body.table ? [req.body.table] : [])\<close>
\<close>

definition tableList :: "ask_body \<Rightarrow> jsval list" where
  "tableList b =
    (if truthy (tables b)
     then (case tables b of JArr xs \<Rightarrow> xs | v \<Rightarrow> [v])
     else (if truthy (table b) then [table b] else []))"

text \<open>
  A row of \<^verbatim>\<open>getSchema\<close>, and what its promise settles to: rejected with the store's
  error, or resolved with the rows (none when the table does not exist). The catalog is
  a parameter of the handler.
\<close>

record column =
  COLUMN_NAME :: string
  DATA_TYPE :: string

datatype lookup_result = LookupErr string | Columns "column list"

type_synonym catalog = "jsval \<Rightarrow> lookup_result"

definition formatSchema :: "column list \<Rightarrow> jsval \<Rightarrow> string option" where
  "formatSchema schema tname =
    (case js_toString tname of
       None \<Rightarrow> None
     | Some name \<Rightarrow>
         Some (name @ ''('' @
               join '', '' (map (\<lambda>col. COLUMN_NAME col @ '' '' @ DATA_TYPE col) schema)
               @ '')''))"

text \<open>
  \<^verbatim>\<open>await Promise.all(schemasPromises)\<close>: all the rows, or the error of a rejected lookup.
  When several lookups are rejected JavaScript reports the one that settles first; the
  model reports the first in the order of the list.
\<close>

fun await_all :: "lookup_result list \<Rightarrow> string + column list list" where
  "await_all [] = Inr []"
| "await_all (LookupErr e # rs) = Inl e"
| "await_all (Columns cs # rs) =
     (case await_all rs of Inl e \<Rightarrow> Inl e | Inr xs \<Rightarrow> Inr (cs # xs))"

text \<open>
  The message of what \<^verbatim>\<open>throw new Error(`Table '${table}' not found`)\<close> throws: the
  error's, or the TypeError's when the table cannot be converted to text.
\<close>

definition not_found :: "jsval \<Rightarrow> string" where
  "not_found t =
    (case js_toString t of
       None \<Rightarrow> type_error
     | Some name \<Rightarrow> ''Table '' @ [apostrophe] @ name @ [apostrophe] @ '' not found'')"

text \<open>
  The \<^verbatim>\<open>map\<close> that formats the schemas, table after table in the order of the list: it
  throws at the first table whose lookup returned no row or whose name cannot be
  converted to text.
\<close>

fun format_schemas :: "(jsval \<times> column list) list \<Rightarrow> string + string list" where
  "format_schemas [] = Inr []"
| "format_schemas ((t, cols) # rest) =
     (if length cols = 0
      then Inl (not_found t)
      else (case formatSchema cols t of
              None \<Rightarrow> Inl type_error
            | Some line \<Rightarrow>
                (case format_schemas rest of
                   Inl e \<Rightarrow> Inl e
                 | Inr xs \<Rightarrow> Inr (line # xs))))"

text \<open>The prompt, from the schema text and the text of the question.\<close>

definition build_prompt :: "string \<Rightarrow> string \<Rightarrow> string" where
  "build_prompt schemasText questionText = join [newline]
    ['''',
     ''You are an expert MySQL SQL generator.'',
     '''',
     ''Rules:'',
     ''- Generate ONLY SQL code, no explanations in the query'',
     ''- Use ONLY the schemas provided below'',
     ''- Use MySQL syntax'',
     ''- For multi-table queries, use JOIN, UNION, or subqueries as appropriate'',
     ''- Do NOT add LIMIT unless explicitly requested'',
     ''- Do NOT hallucinate columns or tables'',
     ''- Generate SELECT queries for read operations'',
     ''- Generate INSERT/UPDATE/DELETE only if explicitly requested'',
     ''- Warn about destructive operations'',
     '''',
     ''Available Tables and Schemas:'',
     schemasText,
     '''',
     ''Question:'',
     questionText,
     '''',
     ''Output format:'',
     ''SQL_QUERY:'',
     ''<sql>'',
     '''',
     ''BUSINESS_EXPLANATION:'',
     ''<explanation>'',
     '''',
     ''WARNING:'',
     ''<warning if destructive operation>'',
     '''']"

text \<open>
  What the model call gives: an error, or the content of the first choice's message,
  which may be \<^verbatim>\<open>null\<close>. The model is a parameter of the handler.
\<close>

datatype model_result = ModelErr string | ModelReply "string option"

type_synonym llm = "string \<Rightarrow> model_result"

text \<open>
  From the parsed reply to the end of \<^verbatim>\<open>app.post("/ask")\<close>: the destructive-operation
  check, the statement sent to the store, the reply.
\<close>

definition ask_execute :: "store \<Rightarrow> parsed \<Rightarrow> response \<times> event list" where
  "ask_execute db p =
    (let warning = classify (p_sql p) (p_warning p)
     in (case db (JStr (p_sql p)) [] of
           StoreErr msg \<Rightarrow> Response 400 (error_body msg)
         | results \<Rightarrow>
             Response 200 (JObj
               [(''sql'', JStr (p_sql p)),
                (''results'', JArr (result_rows results)),
                (''explanation'', JStr (p_explanation p)),
                (''warning'', JStr warning),
                (''rowCount'', JNum (show_nat (length (result_rows results)))),
                (''affectedRows'', JNum (show_nat (affectedRows results)))]),
         [StoreCall (JStr (p_sql p)) []]))"

text \<open>
  The handler. Every exception thrown inside the \<^verbatim>\<open>try\<close> block is answered with status
  500 and its message: a rejected lookup, a table without rows, a table or a question
  that cannot be converted to text, an error of the model, a reply without content.
  The lookups of all the tables are issued before the first one is awaited.
\<close>

definition ask :: "catalog \<Rightarrow> llm \<Rightarrow> store \<Rightarrow> ask_body \<Rightarrow> response \<times> event list" where
  "ask getSchema groq db b =
    (let tlist = tableList b in
     if length tlist = 0 \<or> \<not> truthy (question b)
     then (Response 400 (error_body ''At least one table and question required''), [])
     else
       let lookups = map Lookup tlist in
       (case await_all (map getSchema tlist) of
          Inl e \<Rightarrow> (Response 500 (error_body e), lookups)
        | Inr schemasResults \<Rightarrow>
            (case format_schemas (zip tlist schemasResults) of
               Inl e \<Rightarrow> (Response 500 (error_body e), lookups)
             | Inr formatted \<Rightarrow>
                 (case js_toString (question b) of
                    None \<Rightarrow> (Response 500 (error_body type_error), lookups)
                  | Some questionText \<Rightarrow>
                      let prompt = build_prompt (join [newline] formatted) questionText in
                      (case groq prompt of
                         ModelErr e \<Rightarrow>
                           (Response 500 (error_body e), lookups @ [ModelCall prompt])
                       | ModelReply content \<Rightarrow>
                           (case parse_reply content of
                              Inl e \<Rightarrow>
                                (Response 500 (error_body e), lookups @ [ModelCall prompt])
                            | Inr p \<Rightarrow>
                                (let (resp, calls) = ask_execute db p
                                 in (resp, lookups @ [ModelCall prompt] @ calls))))))))"

text \<open>
  Collaborators for the worked examples: a catalog that knows the table
  \<^verbatim>\<open>orders(id int, total decimal)\<close> and no other, and a model that always gives the same
  reply.
\<close>

definition example_catalog :: catalog where
  "example_catalog t =
    (if t = JStr ''orders''
     then Columns [\<lparr>COLUMN_NAME = ''id'', DATA_TYPE = ''int''\<rparr>,
                   \<lparr>COLUMN_NAME = ''total'', DATA_TYPE = ''decimal''\<rparr>]
     else Columns [])"

text \<open>A catalog whose lookup of the table \<^verbatim>\<open>bad\<close> is rejected by the store.\<close>

definition failing_catalog :: catalog where
  "failing_catalog t = (if t = JStr ''bad'' then LookupErr ''boom'' else example_catalog t)"

definition example_model :: llm where
  "example_model prompt = ModelReply (Some ''SQL_QUERY: SELECT * FROM orders'')"

section \<open>Auxiliary facts\<close>

lemmas upper_eval = toUpperCase_def upper_char_def

lemma show_nat_digits:
  "show_nat 0 = ''0''" "show_nat 1 = ''1''" "show_nat 2 = ''2''" "show_nat 3 = ''3''"
  by code_simp+

lemma crud_reject:
  "crud_build b = Reject st msg \<Longrightarrow> crud db b = (Response st (error_body msg), [])"
  by (simp add: crud_def)

lemma crud_build_Statement:
  "operation b = JStr op \<Longrightarrow> crud_build b = Statement s ps \<Longrightarrow> crud_switch op b = Statement s ps"
  by (auto simp: crud_build_def split: if_splits)

lemma length_Object_values: "length (Object_values v) = length (Object_keys v)"
  by (cases v) simp_all

lemma set_entries_flat: "set (Object_values v) \<subseteq> set (entries_flat v)"
proof -
  have "set vs \<subseteq> set (concat (map (\<lambda>(k, x). [JStr k, x]) (zip ks vs)))"
    if "length ks = length vs" for ks :: "string list" and vs :: "jsval list"
    using that by (induction ks vs rule: list_induct2) auto
  then show ?thesis
    by (simp add: entries_flat_def Object_entries_def length_Object_values)
qed

lemma keys_nonempty_truthy: "Object_keys v \<noteq> [] \<Longrightarrow> truthy v"
  by (cases v) auto

text \<open>A separator that does not occur leaves the text in one piece.\<close>

lemma split_loop_absent:
  "sep \<noteq> [] \<Longrightarrow> \<not> sublist sep s \<Longrightarrow> split_loop sep acc s = [acc @ s]"
proof (induction s arbitrary: acc)
  case Nil
  then show ?case by simp
next
  case (Cons c cs)
  from Cons.prems(2) have "\<not> prefix sep (c # cs)" and "\<not> sublist sep cs"
    by (simp_all add: sublist_Cons_right)
  with Cons.IH [of "acc @ [c]"] Cons.prems(1) show ?case by simp
qed

lemma at_split_absent:
  "sep \<noteq> [] \<Longrightarrow> \<not> js_includes s sep \<Longrightarrow> at (split s sep) (Suc 0) = None"
  by (simp add: split_def js_includes_def split_loop_absent at_def)

lemma extract_sql_absent:
  "\<not> js_includes content ''SQL_QUERY:'' \<Longrightarrow> extract_sql content = []"
  by (simp add: extract_sql_def at_split_absent or_default_def trim_def)

lemma extract_explanation_absent:
  "\<not> js_includes content ''BUSINESS_EXPLANATION:'' \<Longrightarrow>
   extract_explanation content = ''No explanation provided''"
  by (simp add: extract_explanation_def at_split_absent or_default_def)

lemma extract_warning_absent:
  "\<not> js_includes content ''WARNING:'' \<Longrightarrow> extract_warning content = []"
  by (simp add: extract_warning_def at_split_absent or_default_def)

text \<open>Either some lookup is rejected, or all of them give rows.\<close>

lemma await_all_cases:
  "(\<exists>e. LookupErr e \<in> set rs \<and> await_all rs = Inl e)
   \<or> (\<exists>xs. rs = map Columns xs \<and> await_all rs = Inr xs)"
proof (induction rs rule: await_all.induct)
  case 1
  then show ?case by simp
next
  case (2 e rs)
  then show ?case by simp
next
  case (3 cs rs)
  then show ?case
  proof (elim disjE exE conjE)
    fix e assume "LookupErr e \<in> set rs" "await_all rs = Inl e"
    then show ?thesis by auto
  next
    fix xs assume "rs = map Columns xs" "await_all rs = Inr xs"
    then have "Columns cs # rs = map Columns (cs # xs) \<and> await_all (Columns cs # rs) = Inr (cs # xs)"
      by simp
    then show ?thesis by (intro disjI2 exI [of _ "cs # xs"])
  qed
qed

lemma format_schemas_first_empty:
  "map getSchema ts = map Columns xs \<Longrightarrow>
   find (\<lambda>u. getSchema u = Columns [] \<or> js_toString u = None) ts = Some u \<Longrightarrow>
   format_schemas (zip ts xs) = Inl (not_found u)"
proof (induction ts arbitrary: xs)
  case Nil
  then show ?case by simp
next
  case (Cons a ts)
  from Cons.prems(1) obtain c cs where xs: "xs = c # cs" and a: "getSchema a = Columns c"
    and rest: "map getSchema ts = map Columns cs"
    by (cases xs) auto
  show ?case
  proof (cases "c = []")
    case True
    with a Cons.prems(2) have "u = a" by simp
    with True xs show ?thesis by simp
  next
    case False
    show ?thesis
    proof (cases "js_toString a")
      case None
      with Cons.prems(2) have "u = a" by simp
      with None False xs show ?thesis
        by (simp add: formatSchema_def not_found_def)
    next
      case (Some name)
      with a False Cons.prems(2)
      have "find (\<lambda>u. getSchema u = Columns [] \<or> js_toString u = None) ts = Some u"
        by simp
      with Cons.IH [OF rest] have "format_schemas (zip ts cs) = Inl (not_found u)" .
      with False Some xs show ?thesis by (simp add: formatSchema_def)
    qed
  qed
qed

text \<open>The handler past its validation, with the bindings unfolded.\<close>

lemma ask_valid:
  assumes "tableList b \<noteq> []" and "truthy (question b)"
  shows "ask getSchema groq db b =
    (case await_all (map getSchema (tableList b)) of
       Inl e \<Rightarrow> (Response 500 (error_body e), map Lookup (tableList b))
     | Inr schemasResults \<Rightarrow>
         (case format_schemas (zip (tableList b) schemasResults) of
            Inl e \<Rightarrow> (Response 500 (error_body e), map Lookup (tableList b))
          | Inr formatted \<Rightarrow>
              (case js_toString (question b) of
                 None \<Rightarrow> (Response 500 (error_body type_error), map Lookup (tableList b))
               | Some q \<Rightarrow>
                   (case groq (build_prompt (join [newline] formatted) q) of
                      ModelErr e \<Rightarrow> (Response 500 (error_body e),
                          map Lookup (tableList b)
                            @ [ModelCall (build_prompt (join [newline] formatted) q)])
                    | ModelReply content \<Rightarrow>
                        (case parse_reply content of
                           Inl e \<Rightarrow> (Response 500 (error_body e),
                              map Lookup (tableList b)
                                @ [ModelCall (build_prompt (join [newline] formatted) q)])
                         | Inr p \<Rightarrow> (fst (ask_execute db p),
                              map Lookup (tableList b)
                                @ [ModelCall (build_prompt (join [newline] formatted) q)]
                                @ snd (ask_execute db p)))))))"
  using assms
  by (auto simp: ask_def Let_def
      split: sum.splits model_result.splits prod.splits option.splits)

lemma ask_trace_prefix:
  assumes "tableList b \<noteq> []" and "truthy (question b)"
  shows "\<exists>rest. snd (ask getSchema groq db b) = map Lookup (tableList b) @ rest"
  by (simp add: ask_valid [OF assms] split: sum.splits model_result.splits option.splits)

section \<open>The CRUD surface: table names, values and filters\<close>

text \<open>
  Claim C1, as amended. On the CRUD surface a table name is refused, with status 400
  and before any store call, when it is absent or empty (falsy). Every other table name
  is accepted whether or not it matches \<^verbatim>\<open>[A-Za-z0-9_]+\<close>: the outcome is the one of any
  other name (here \<^verbatim>\<open>t\<close>), and the name reaches the store as the first parameter, the
  one bound to the identifier placeholder, never inside the statement text.
\<close>

theorem crud_table_name_gate:
  "(\<not> truthy (tableName b) \<longrightarrow>
      crud db b = (Response 400 (error_body ''Operation and table name required''), []))
   \<and> (truthy (tableName b) \<longrightarrow>
        crud_build b =
          (case crud_build (b\<lparr>tableName := JStr ''t''\<rparr>) of
             Reject st msg \<Rightarrow> Reject st msg
           | Statement sqltext params \<Rightarrow> Statement sqltext (tableName b # tl params)))"
proof (intro conjI impI)
  assume "\<not> truthy (tableName b)"
  then have "crud_build b = Reject 400 ''Operation and table name required''"
    by (simp add: crud_build_def)
  then show "crud db b = (Response 400 (error_body ''Operation and table name required''), [])"
    by (rule crud_reject)
next
  assume "truthy (tableName b)"
  then show "crud_build b =
          (case crud_build (b\<lparr>tableName := JStr ''t''\<rparr>) of
             Reject st msg \<Rightarrow> Reject st msg
           | Statement sqltext params \<Rightarrow> Statement sqltext (tableName b # tl params))"
    by (auto simp: crud_build_def crud_switch_def Let_def split: jsval.splits option.splits)
qed

theorem crud_table_name_gate_witness:
  "truthy (JStr ''my table; --'') \<and>
   crud_build \<lparr>operation = JStr ''TRUNCATE'', tableName = JStr ''my table; --'',
      data = JUndefined, whereClause = JUndefined\<rparr>
   = Statement ''TRUNCATE TABLE ??'' [JStr ''my table; --'']"
  using crud_table_name_gate [of "\<lparr>operation = JStr ''TRUNCATE'',
      tableName = JStr ''my table; --'', data = JUndefined, whereClause = JUndefined\<rparr>"]
  by (simp add: upper_eval crud_build_def crud_switch_def)

text \<open>
  The claim as stated fails: \<^verbatim>\<open>a-b\<close> has a character outside the set, and the DROP
  request that names it is built and sent to the store.
\<close>

theorem crud_table_name_counterexample:
  "\<not> valid_table_name ''a-b'' \<and>
   crud (const_store (Header 0))
     \<lparr>operation = JStr ''DROP'', tableName = JStr ''a-b'', data = JUndefined,
      whereClause = JUndefined\<rparr>
   = (Response 200 (JObj [(''success'', JBool True), (''operation'', JStr ''DROP''),
        (''affectedRows'', JNum ''0''), (''message'', JStr ''DROP completed successfully'')]),
      [StoreCall (JStr ''DROP TABLE IF EXISTS ??'') [JStr ''a-b'']])"
  by (simp add: valid_table_name_def word_char_def crud_def crud_build_def crud_switch_def
      upper_eval const_store_def show_nat_digits operation_text_def del: show_nat.simps)

text \<open>
  Claim C2. For a request with an operation and a table name, the statement and its
  parameter list are these, whatever the values of \<^verbatim>\<open>data\<close>. INSERT: the text has one
  \<^verbatim>\<open>??\<close> for the table, one \<^verbatim>\<open>??\<close> for each key, then one \<^verbatim>\<open>?\<close> for each value, and the
  parameters are the table, the keys, then the values: each value meets a \<^verbatim>\<open>?\<close>.
  UPDATE: the text has \<^verbatim>\<open>?? = ?\<close> for each key, and the parameters after the table are
  key, value, key, value: again each value meets a \<^verbatim>\<open>?\<close>. The text of \<^verbatim>\<open>where\<close> is the
  end of the UPDATE and of the DELETE statement, unchanged, right after \<^verbatim>\<open>WHERE\<close> and a
  space. The statement text is the same for two requests whose data have the same keys.
\<close>

theorem crud_values_and_where:
  assumes "operation b = JStr op" and "truthy (tableName b)"
  shows
  "(toUpperCase op = ''INSERT'' \<and> Object_keys (data b) \<noteq> [] \<longrightarrow>
      crud_build b = Statement
        (''INSERT INTO ?? ('' @ join '','' (replicate (length (Object_keys (data b))) ''??'')
           @ '') VALUES ('' @ join '','' (replicate (length (Object_keys (data b))) ''?'')
           @ '')'')
        (tableName b # map JStr (Object_keys (data b)) @ Object_values (data b)))
   \<and> (toUpperCase op = ''UPDATE'' \<and> Object_keys (data b) \<noteq> []
        \<and> whereClause b = JStr w \<and> w \<noteq> [] \<longrightarrow>
      crud_build b = Statement
        (''UPDATE ?? SET ''
           @ join '', '' (replicate (length (Object_keys (data b))) ''?? = ?'')
           @ '' WHERE '' @ w)
        (tableName b
           # concat (map (\<lambda>(k, v). [JStr k, v])
               (zip (Object_keys (data b)) (Object_values (data b))))))
   \<and> (toUpperCase op = ''DELETE'' \<and> whereClause b = JStr w \<and> w \<noteq> [] \<longrightarrow>
      crud_build b = Statement (''DELETE FROM ?? WHERE '' @ w) [tableName b])
   \<and> (Object_keys d = Object_keys d' \<longrightarrow>
      statement_text (crud_build (b\<lparr>data := d\<rparr>)) = statement_text (crud_build (b\<lparr>data := d'\<rparr>)))"
proof (intro conjI impI)
  from assms have build: "crud_build b = crud_switch op b" if "op \<noteq> []"
    using that by (simp add: crud_build_def)
  {
    assume a: "toUpperCase op = ''INSERT'' \<and> Object_keys (data b) \<noteq> []"
    then have "truthy (data b)" and "op \<noteq> []"
      by (auto simp: keys_nonempty_truthy toUpperCase_def)
    with a show "crud_build b = Statement
        (''INSERT INTO ?? ('' @ join '','' (replicate (length (Object_keys (data b))) ''??'')
           @ '') VALUES ('' @ join '','' (replicate (length (Object_keys (data b))) ''?'')
           @ '')'')
        (tableName b # map JStr (Object_keys (data b)) @ Object_values (data b))"
      by (simp add: build crud_switch_def map_replicate_const Let_def)
  }
  {
    assume a: "toUpperCase op = ''UPDATE'' \<and> Object_keys (data b) \<noteq> []
        \<and> whereClause b = JStr w \<and> w \<noteq> []"
    then have "truthy (data b)" and "op \<noteq> []"
      by (auto simp: keys_nonempty_truthy toUpperCase_def)
    with a show "crud_build b = Statement
        (''UPDATE ?? SET ''
           @ join '', '' (replicate (length (Object_keys (data b))) ''?? = ?'')
           @ '' WHERE '' @ w)
        (tableName b
           # concat (map (\<lambda>(k, v). [JStr k, v])
               (zip (Object_keys (data b)) (Object_values (data b)))))"
      by (simp add: build crud_switch_def map_replicate_const entries_flat_def
          Object_entries_def)
  }
  {
    assume a: "toUpperCase op = ''DELETE'' \<and> whereClause b = JStr w \<and> w \<noteq> []"
    then have "op \<noteq> []" by (auto simp: toUpperCase_def)
    with a show "crud_build b = Statement (''DELETE FROM ?? WHERE '' @ w) [tableName b]"
      by (simp add: build crud_switch_def)
  }
  {
    assume k: "Object_keys d = Object_keys d'"
    have t: "Object_keys d = [] \<or> (truthy d \<and> truthy d')"
      using k keys_nonempty_truthy by metis
    have "statement_text (crud_switch x (b\<lparr>data := d\<rparr>))
        = statement_text (crud_switch x (b\<lparr>data := d'\<rparr>))" for x
      using k t by (auto simp: crud_switch_def Let_def split: option.splits)
    then show "statement_text (crud_build (b\<lparr>data := d\<rparr>))
        = statement_text (crud_build (b\<lparr>data := d'\<rparr>))"
      by (simp add: crud_build_def split: jsval.splits)
  }
qed

theorem crud_values_and_where_witness:
  "crud_build \<lparr>operation = JStr ''INSERT'', tableName = JStr ''orders'',
      data = JObj [(''note'', JStr ''x); DROP TABLE orders; --'')], whereClause = JUndefined\<rparr>
     = Statement ''INSERT INTO ?? (??) VALUES (?)''
         [JStr ''orders'', JStr ''note'', JStr ''x); DROP TABLE orders; --'']
   \<and> crud_build \<lparr>operation = JStr ''update'', tableName = JStr ''orders'',
      data = JObj [(''id'', JNum ''1''), (''total'', JNum ''9.5'')],
      whereClause = JStr ''id = 1 OR 1 = 1''\<rparr>
     = Statement ''UPDATE ?? SET ?? = ?, ?? = ? WHERE id = 1 OR 1 = 1''
         [JStr ''orders'', JStr ''id'', JNum ''1'', JStr ''total'', JNum ''9.5'']
   \<and> crud_build \<lparr>operation = JStr ''DELETE'', tableName = JStr ''orders'',
      data = JUndefined, whereClause = JStr ''id = 1 OR 1 = 1''\<rparr>
     = Statement ''DELETE FROM ?? WHERE id = 1 OR 1 = 1'' [JStr ''orders'']"
proof -
  have up: "toUpperCase ''update'' = ''UPDATE''"
    by code_simp
  have "crud_build \<lparr>operation = JStr ''INSERT'', tableName = JStr ''orders'',
      data = JObj [(''note'', JStr ''x); DROP TABLE orders; --'')], whereClause = JUndefined\<rparr>
     = Statement ''INSERT INTO ?? (??) VALUES (?)''
         [JStr ''orders'', JStr ''note'', JStr ''x); DROP TABLE orders; --'']"
    using crud_values_and_where [of "\<lparr>operation = JStr ''INSERT'', tableName = JStr ''orders'',
      data = JObj [(''note'', JStr ''x); DROP TABLE orders; --'')], whereClause = JUndefined\<rparr>"
      "''INSERT''"]
    by (simp add: upper_eval)
  moreover have "crud_build \<lparr>operation = JStr ''update'', tableName = JStr ''orders'',
      data = JObj [(''id'', JNum ''1''), (''total'', JNum ''9.5'')],
      whereClause = JStr ''id = 1 OR 1 = 1''\<rparr>
     = Statement ''UPDATE ?? SET ?? = ?, ?? = ? WHERE id = 1 OR 1 = 1''
         [JStr ''orders'', JStr ''id'', JNum ''1'', JStr ''total'', JNum ''9.5'']"
    using crud_values_and_where [of "\<lparr>operation = JStr ''update'', tableName = JStr ''orders'',
      data = JObj [(''id'', JNum ''1''), (''total'', JNum ''9.5'')],
      whereClause = JStr ''id = 1 OR 1 = 1''\<rparr>" "''update''" "''id = 1 OR 1 = 1''"]
    by (simp add: up)
  moreover have "crud_build \<lparr>operation = JStr ''DELETE'', tableName = JStr ''orders'',
      data = JUndefined, whereClause = JStr ''id = 1 OR 1 = 1''\<rparr>
     = Statement ''DELETE FROM ?? WHERE id = 1 OR 1 = 1'' [JStr ''orders'']"
    using crud_values_and_where [of "\<lparr>operation = JStr ''DELETE'', tableName = JStr ''orders'',
      data = JUndefined, whereClause = JStr ''id = 1 OR 1 = 1''\<rparr>" "''DELETE''"
      "''id = 1 OR 1 = 1''"]
    by (simp add: upper_eval)
  ultimately show ?thesis by (intro conjI)
qed

text \<open>
  Claim C3. A request whose operation is UPDATE or DELETE, in any letter case, and whose
  \<^verbatim>\<open>where\<close> is absent or empty (falsy) is answered with status 400 and an error message,
  and no call is made on the store.
\<close>

theorem crud_where_required:
  assumes "operation b = JStr op"
    and "toUpperCase op = ''UPDATE'' \<or> toUpperCase op = ''DELETE''"
    and "\<not> truthy (whereClause b)"
  shows "\<exists>msg \<in> {''Operation and table name required'', ''Data required for UPDATE'',
                 ''WHERE clause required for UPDATE'', ''WHERE clause required for DELETE''}.
           crud_build b = Reject 400 msg \<and> crud db b = (Response 400 (error_body msg), [])"
proof -
  from assms(2) have op: "op \<noteq> []" by (auto simp: toUpperCase_def)
  consider (no_table) "\<not> truthy (tableName b)"
    | (no_data) "truthy (tableName b)" "toUpperCase op = ''UPDATE''"
        "\<not> truthy (data b) \<or> length (Object_keys (data b)) = 0"
    | (update) "truthy (tableName b)" "toUpperCase op = ''UPDATE''"
        "\<not> (\<not> truthy (data b) \<or> length (Object_keys (data b)) = 0)"
    | (delete) "truthy (tableName b)" "toUpperCase op = ''DELETE''"
    using assms(2) by blast
  then show ?thesis
  proof cases
    case no_table
    then have "crud_build b = Reject 400 ''Operation and table name required''"
      by (simp add: crud_build_def)
    then show ?thesis by (intro bexI [of _ "''Operation and table name required''"]) (simp_all add: crud_reject)
  next
    case no_data
    with assms(1) op have "crud_build b = Reject 400 ''Data required for UPDATE''"
      by (simp add: crud_build_def crud_switch_def)
    then show ?thesis by (intro bexI [of _ "''Data required for UPDATE''"]) (simp_all add: crud_reject)
  next
    case update
    with assms(1,3) op have "crud_build b = Reject 400 ''WHERE clause required for UPDATE''"
      by (simp add: crud_build_def crud_switch_def)
    then show ?thesis by (intro bexI [of _ "''WHERE clause required for UPDATE''"]) (simp_all add: crud_reject)
  next
    case delete
    with assms(1,3) op have "crud_build b = Reject 400 ''WHERE clause required for DELETE''"
      by (simp add: crud_build_def crud_switch_def)
    then show ?thesis by (intro bexI [of _ "''WHERE clause required for DELETE''"]) (simp_all add: crud_reject)
  qed
qed

theorem crud_where_required_witness:
  "crud (const_store (Header 1))
     \<lparr>operation = JStr ''DELETE'', tableName = JStr ''orders'', data = JUndefined,
      whereClause = JStr ''''\<rparr>
   = (Response 400 (error_body ''WHERE clause required for DELETE''), [])"
  using crud_where_required [of "\<lparr>operation = JStr ''DELETE'', tableName = JStr ''orders'',
      data = JUndefined, whereClause = JStr ''''\<rparr>" "''DELETE''" "const_store (Header 1)"]
  by (simp add: upper_eval crud_build_def crud_switch_def)

text \<open>
  Claim C7, as amended. An INSERT whose data is an object with at least one key builds
  a statement with one identifier placeholder for the table, one for each key, and one
  value placeholder for each value; the parameter list is the table name, then the keys
  in order, then the values in the same order. For the request of the scenario that is
  \<^verbatim>\<open>INSERT INTO ?? (??,??) VALUES (?,?)\<close> with the parameters
  \<^verbatim>\<open>["orders", "id", "total", 1, 9.5]\<close>.
\<close>

theorem crud_insert_statement:
  assumes "toUpperCase op = ''INSERT''" and "truthy tn" and "kvs \<noteq> []"
  shows "crud_build \<lparr>operation = JStr op, tableName = tn, data = JObj kvs, whereClause = w\<rparr>
    = Statement
        (''INSERT INTO ?? ('' @ join '','' (replicate (length kvs) ''??'')
           @ '') VALUES ('' @ join '','' (replicate (length kvs) ''?'') @ '')'')
        (tn # map (\<lambda>(k, v). JStr k) kvs @ map (\<lambda>(k, v). v) kvs)"
proof -
  from assms(1) have "op \<noteq> []" by (auto simp: toUpperCase_def)
  with assms show ?thesis
    by (simp add: crud_build_def crud_switch_def map_replicate_const case_prod_unfold comp_def)
qed

theorem crud_insert_statement_witness:
  "crud_build \<lparr>operation = JStr ''INSERT'', tableName = JStr ''orders'',
      data = JObj [(''id'', JNum ''1''), (''total'', JNum ''9.5'')], whereClause = JUndefined\<rparr>
   = Statement ''INSERT INTO ?? (??,??) VALUES (?,?)''
       [JStr ''orders'', JStr ''id'', JStr ''total'', JNum ''1'', JNum ''9.5'']"
  using crud_insert_statement [of "''INSERT''" "JStr ''orders''"
      "[(''id'', JNum ''1''), (''total'', JNum ''9.5'')]" JUndefined]
  by (simp add: upper_eval)

text \<open>
  The claim as stated fails: the statement built for the scenario is not the text with
  the names written in, and its parameters are not the two values alone.
\<close>

theorem crud_insert_scenario_counterexample:
  "crud_build \<lparr>operation = JStr ''INSERT'', tableName = JStr ''orders'',
      data = JObj [(''id'', JNum ''1''), (''total'', JNum ''9.5'')], whereClause = JUndefined\<rparr>
   \<noteq> Statement ''INSERT INTO orders (id, total) VALUES (?, ?)'' [JNum ''1'', JNum ''9.5'']"
  by (simp add: crud_build_def crud_switch_def upper_eval)

section \<open>The execute-raw-SQL surface: no confirmation gate\<close>

text \<open>
  Claim C9. Two requests with the same \<^verbatim>\<open>sql\<close>, whatever their \<^verbatim>\<open>requireConfirmation\<close>,
  make the same store call and get the same reply; and a request with a statement
  always has it sent to the store, so nothing is held back for a confirmation.
\<close>

theorem execute_ignores_requireConfirmation:
  "sql b = sql b' \<Longrightarrow>
   execute db b = execute db b'
   \<and> (truthy (sql b) \<longrightarrow> snd (execute db b) = [StoreCall (sql b) []])"
  by (simp add: execute_def)

theorem execute_ignores_requireConfirmation_witness:
  "execute (const_store (Header 3)) \<lparr>sql = JStr ''DELETE FROM t'', requireConfirmation = JBool True\<rparr>
   = execute (const_store (Header 3)) \<lparr>sql = JStr ''DELETE FROM t'', requireConfirmation = JUndefined\<rparr>
   \<and> snd (execute (const_store (Header 3))
        \<lparr>sql = JStr ''DELETE FROM t'', requireConfirmation = JBool True\<rparr>)
     = [StoreCall (JStr ''DELETE FROM t'') []]"
  using execute_ignores_requireConfirmation [of
      "\<lparr>sql = JStr ''DELETE FROM t'', requireConfirmation = JBool True\<rparr>"
      "\<lparr>sql = JStr ''DELETE FROM t'', requireConfirmation = JUndefined\<rparr>"
      "const_store (Header 3)"]
  by auto

section \<open>Parsing and classifying the model's reply\<close>

text \<open>
  Claim C4, as amended. The parsing of a reply never fails. When the marker
  \<^verbatim>\<open>SQL_QUERY:\<close> is missing the SQL is the empty string; when \<^verbatim>\<open>WARNING:\<close> is missing the
  warning is the empty string; when \<^verbatim>\<open>BUSINESS_EXPLANATION:\<close> is missing the explanation
  is the fixed text \<^verbatim>\<open>No explanation provided\<close>.
\<close>

theorem parse_missing_marker:
  "\<exists>p. parse_reply (Some content) = Inr p
     \<and> (\<not> js_includes content ''SQL_QUERY:'' \<longrightarrow> p_sql p = '''')
     \<and> (\<not> js_includes content ''BUSINESS_EXPLANATION:'' \<longrightarrow>
          p_explanation p = ''No explanation provided'')
     \<and> (\<not> js_includes content ''WARNING:'' \<longrightarrow> p_warning p = '''')"
  by (simp add: parse_reply_def extract_sql_absent extract_explanation_absent
      extract_warning_absent)

theorem parse_missing_marker_witness:
  "\<not> js_includes ''SQL_QUERY: SELECT 1'' ''WARNING:''
   \<and> parse_reply (Some ''SQL_QUERY: SELECT 1'')
     = Inr \<lparr>p_sql = ''SELECT 1'', p_explanation = ''No explanation provided'', p_warning = ''''\<rparr>"
proof -
  have absent: "\<not> js_includes ''SQL_QUERY: SELECT 1'' ''WARNING:''"
    by code_simp
  have "parse_reply (Some ''SQL_QUERY: SELECT 1'')
     = Inr \<lparr>p_sql = ''SELECT 1'', p_explanation = ''No explanation provided'', p_warning = ''''\<rparr>"
    by code_simp
  with absent parse_missing_marker [of "''SQL_QUERY: SELECT 1''"] show ?thesis
    by simp
qed

text \<open>
  The claim as stated fails: the reply \<^verbatim>\<open>SELECT 1\<close> has no \<^verbatim>\<open>BUSINESS_EXPLANATION:\<close>
  marker, and its explanation is not the empty string.
\<close>

theorem parse_missing_marker_counterexample:
  "\<not> js_includes ''SELECT 1'' ''BUSINESS_EXPLANATION:''
   \<and> parse_reply (Some ''SELECT 1'')
     = Inr \<lparr>p_sql = '''', p_explanation = ''No explanation provided'', p_warning = ''''\<rparr>"
  by code_simp

text \<open>
  Claim C5. The SQL is destructive exactly when its lower-case form contains one of
  \<^verbatim>\<open>delete\<close>, \<^verbatim>\<open>drop\<close>, \<^verbatim>\<open>truncate\<close>, \<^verbatim>\<open>update\<close>. A destructive SQL with an empty
  warning gets the fixed message, which is not empty; in every other case the warning
  stays as it was.
\<close>

theorem classify_destructive:
  "(isDestructive sqltext \<longleftrightarrow>
      (\<exists>k \<in> {''delete'', ''drop'', ''truncate'', ''update''}.
         \<exists>before after. toLowerCase sqltext = before @ k @ after))
   \<and> classify sqltext warning =
       (if isDestructive sqltext \<and> warning = '''' then destructive_warning else warning)
   \<and> destructive_warning \<noteq> ''''"
  by (simp add: isDestructive_def Let_def js_includes_def sublist_def classify_def
      destructive_warning_def)

theorem classify_destructive_witness:
  "isDestructive ''DROP TABLE t'' \<and> classify ''DROP TABLE t'' '''' = destructive_warning
   \<and> classify ''DROP TABLE t'' ''careful'' = ''careful''
   \<and> classify ''SELECT 1'' '''' = ''''"
proof -
  have "toLowerCase ''DROP TABLE t'' = [] @ ''drop'' @ '' table t''"
    by code_simp
  then have "isDestructive ''DROP TABLE t''"
    using classify_destructive [of "''DROP TABLE t''" "''''"] by blast
  moreover have "\<not> isDestructive ''SELECT 1''"
    by code_simp
  ultimately show ?thesis
    by (simp add: classify_def)
qed

text \<open>
  Claim C8. The well-formed reply of the specification parses to the SQL \<^verbatim>\<open>SELECT 1\<close>,
  the explanation \<^verbatim>\<open>ok\<close> and the empty warning.
\<close>

theorem parse_well_formed_reply:
  "parse_reply (Some ''SQL_QUERY:\<newline>SELECT 1\<newline>\<newline>BUSINESS_EXPLANATION:\<newline>ok\<newline>\<newline>WARNING:\<newline>'')
   = Inr \<lparr>p_sql = ''SELECT 1'', p_explanation = ''ok'', p_warning = ''''\<rparr>"
  by code_simp

section \<open>The ask surface: table list and missing tables\<close>

text \<open>
  Claim C6, as amended. A request has a question, and one of its tables has a lookup
  that returns no row. Then the reply has status 500 and an error message, and the only
  calls made are the lookups: no prompt goes to the model and no statement goes to the
  store. When every lookup returns, the message is the one thrown at the first table, in
  the order of the list, that has no row or cannot be converted to text: the
  table-not-found message with its name, or the TypeError's. When some lookup is
  rejected by the store, the message is the error of a rejected lookup.
\<close>

theorem ask_missing_table_aborts:
  assumes "truthy (question b)" and "t \<in> set (tableList b)" and "getSchema t = Columns []"
  shows "\<exists>msg. ask getSchema groq db b = (Response 500 (error_body msg), map Lookup (tableList b))
      \<and> ((\<forall>u \<in> set (tableList b). \<exists>cols. getSchema u = Columns cols) \<longrightarrow>
           (\<exists>u. find (\<lambda>u. getSchema u = Columns [] \<or> js_toString u = None) (tableList b) = Some u
              \<and> msg = not_found u))
      \<and> (\<not> (\<forall>u \<in> set (tableList b). \<exists>cols. getSchema u = Columns cols) \<longrightarrow>
           (\<exists>u \<in> set (tableList b). getSchema u = LookupErr msg))"
proof -
  let ?all = "\<forall>u \<in> set (tableList b). \<exists>cols. getSchema u = Columns cols"
  from assms(2) have ne: "tableList b \<noteq> []" by auto
  have "find (\<lambda>u. getSchema u = Columns [] \<or> js_toString u = None) (tableList b) \<noteq> None"
    using assms(2,3) by (simp add: find_None_iff) blast
  then obtain u
    where u: "find (\<lambda>u. getSchema u = Columns [] \<or> js_toString u = None) (tableList b) = Some u"
    by blast
  from await_all_cases [of "map getSchema (tableList b)"] show ?thesis
  proof (elim disjE exE conjE)
    fix e assume e: "LookupErr e \<in> set (map getSchema (tableList b))"
      and a: "await_all (map getSchema (tableList b)) = Inl e"
    from e obtain v where v: "v \<in> set (tableList b)" "getSchema v = LookupErr e"
      by auto
    then have not_all: "\<not> ?all"
      by (metis lookup_result.distinct(1))
    from a have reply:
      "ask getSchema groq db b = (Response 500 (error_body e), map Lookup (tableList b))"
      by (simp add: ask_valid [OF ne assms(1)])
    from v have rejected: "\<exists>u \<in> set (tableList b). getSchema u = LookupErr e"
      by (rule bexI [rotated])
    show ?thesis
    proof (intro exI [of _ e] conjI impI)
      show "ask getSchema groq db b = (Response 500 (error_body e), map Lookup (tableList b))"
        by (fact reply)
    next
      assume ?all
      with not_all
      show "\<exists>u. find (\<lambda>u. getSchema u = Columns [] \<or> js_toString u = None) (tableList b) = Some u
              \<and> e = not_found u"
        by contradiction
    next
      show "\<exists>u \<in> set (tableList b). getSchema u = LookupErr e"
        by (fact rejected)
    qed
  next
    fix xs assume m: "map getSchema (tableList b) = map Columns xs"
      and a: "await_all (map getSchema (tableList b)) = Inr xs"
    have all: ?all
    proof
      fix v assume "v \<in> set (tableList b)"
      then have "getSchema v \<in> set (map getSchema (tableList b))" by simp
      with m have "getSchema v \<in> set (map Columns xs)" by simp
      then show "\<exists>cols. getSchema v = Columns cols" by auto
    qed
    from format_schemas_first_empty [OF m u] a
    have reply: "ask getSchema groq db b
        = (Response 500 (error_body (not_found u)), map Lookup (tableList b))"
      by (simp add: ask_valid [OF ne assms(1)])
    show ?thesis
    proof (intro exI [of _ "not_found u"] conjI impI)
      show "ask getSchema groq db b
          = (Response 500 (error_body (not_found u)), map Lookup (tableList b))"
        by (fact reply)
    next
      from u
      show "\<exists>v. find (\<lambda>u. getSchema u = Columns [] \<or> js_toString u = None) (tableList b) = Some v
              \<and> not_found u = not_found v"
        by simp
    next
      assume "\<not> ?all"
      with all show "\<exists>v \<in> set (tableList b). getSchema v = LookupErr (not_found u)"
        by contradiction
    qed
  qed
qed

theorem ask_missing_table_aborts_witness:
  "ask example_catalog example_model (const_store (Rows []))
     \<lparr>tables = JArr [JStr ''orders'', JStr ''ghost''], table = JUndefined,
      question = JStr ''show all orders''\<rparr>
   = (Response 500 (error_body (''Table '' @ [apostrophe] @ ''ghost'' @ [apostrophe]
                                 @ '' not found'')),
      [Lookup (JStr ''orders''), Lookup (JStr ''ghost'')])"
  using ask_missing_table_aborts [of "\<lparr>tables = JArr [JStr ''orders'', JStr ''ghost''],
      table = JUndefined, question = JStr ''show all orders''\<rparr>" "JStr ''ghost''"
      example_catalog example_model "const_store (Rows [])"]
  by (auto simp: tableList_def example_catalog_def not_found_def)

text \<open>
  The claim as stated fails: the lookup of \<^verbatim>\<open>ghost\<close> returns no row, the lookup of
  \<^verbatim>\<open>bad\<close> is rejected, and the error of the reply is the store's, not a table-not-found
  error.
\<close>

theorem ask_missing_table_counterexample:
  "failing_catalog (JStr ''ghost'') = Columns []
   \<and> ask failing_catalog example_model (const_store (Rows []))
       \<lparr>tables = JArr [JStr ''ghost'', JStr ''bad''], table = JUndefined,
        question = JStr ''show all orders''\<rparr>
     = (Response 500 (error_body ''boom''), [Lookup (JStr ''ghost''), Lookup (JStr ''bad'')])"
  by (simp add: failing_catalog_def example_catalog_def ask_def tableList_def)

text \<open>
  Claim C10. The table list is computed first: a \<^verbatim>\<open>tables\<close> value that is present
  (truthy) and not an array is wrapped into a one-element list, an array is taken as it
  is, and when \<^verbatim>\<open>tables\<close> is absent (falsy) a present \<^verbatim>\<open>table\<close> is taken as a one-element
  list. The request is answered with the validation error, before any lookup, exactly
  when that list is empty or the question is absent (falsy).
\<close>

theorem ask_normalizes_tables:
  "(truthy (tables b) \<and> (\<forall>xs. tables b \<noteq> JArr xs) \<longrightarrow> tableList b = [tables b])
   \<and> (tables b = JArr xs \<longrightarrow> tableList b = xs)
   \<and> (\<not> truthy (tables b) \<and> truthy (table b) \<longrightarrow> tableList b = [table b])
   \<and> (\<not> truthy (tables b) \<and> \<not> truthy (table b) \<longrightarrow> tableList b = [])
   \<and> (ask getSchema groq db b
        = (Response 400 (error_body ''At least one table and question required''), [])
      \<longleftrightarrow> tableList b = [] \<or> \<not> truthy (question b))"
proof (intro conjI impI)
  show "ask getSchema groq db b
        = (Response 400 (error_body ''At least one table and question required''), [])
      \<longleftrightarrow> tableList b = [] \<or> \<not> truthy (question b)"
  proof
    assume r: "ask getSchema groq db b
        = (Response 400 (error_body ''At least one table and question required''), [])"
    show "tableList b = [] \<or> \<not> truthy (question b)"
    proof (rule ccontr)
      assume "\<not> (tableList b = [] \<or> \<not> truthy (question b))"
      then have "tableList b \<noteq> []" and "truthy (question b)" by simp_all
      from ask_trace_prefix [OF this, of getSchema groq db] r \<open>tableList b \<noteq> []\<close>
      show False by simp
    qed
  next
    assume "tableList b = [] \<or> \<not> truthy (question b)"
    then show "ask getSchema groq db b
        = (Response 400 (error_body ''At least one table and question required''), [])"
      by (auto simp: ask_def Let_def)
  qed
qed (auto simp: tableList_def split: jsval.splits)

theorem ask_normalizes_tables_witness:
  "tableList \<lparr>tables = JStr ''orders'', table = JUndefined, question = JStr ''show all orders''\<rparr>
     = [JStr ''orders'']
   \<and> tableList \<lparr>tables = JUndefined, table = JStr ''orders'', question = JUndefined\<rparr>
     = [JStr ''orders'']
   \<and> ask example_catalog example_model (const_store (Rows []))
       \<lparr>tables = JUndefined, table = JStr ''orders'', question = JUndefined\<rparr>
     = (Response 400 (error_body ''At least one table and question required''), [])"
  using
    ask_normalizes_tables [of "\<lparr>tables = JStr ''orders'', table = JUndefined,
      question = JStr ''show all orders''\<rparr>" "[]" example_catalog example_model
      "const_store (Rows [])"]
    ask_normalizes_tables [of "\<lparr>tables = JUndefined, table = JStr ''orders'',
      question = JUndefined\<rparr>" "[]" example_catalog example_model "const_store (Rows [])"]
  by simp

end
